theory Spec2Isabelle
  imports Main "HOL-Library.Sublist"
begin

section \<open>The Hamamatsu ImagEM X2 camera adapter\<close>

text \<open>
  A shallow embedding of the class \<open>HamamatsuImagEMX2\<close> of
  \<^verbatim>\<open>qudi/hardware/camera/hamamatsu/hamamatsu_imagem_x2.py\<close>. The class adapts
  the camera object of the device-control library (\<open>pylablib.devices.DCAM\<close>) to
  the camera interface of the hosting framework. The library and the camera behind it
  are not part of the repository: they are a parameter of every definition below, and
  every theorem holds for all of them.
\<close>

subsection \<open>Python values and exceptions\<close>

text \<open>
  The values that cross the adapter. \<open>PyFloat m e\<close> is the finite float
  \<open>m * 2 ^ e\<close>; \<open>PySeq\<close> is a tuple or a list; \<open>PyObj\<close> is any other
  object (a frame, for example), named by a number. What the truth test and the
  iteration of such an object do is the object's own business: both are given with the
  library that hands the object out.
\<close>

datatype pyval =
    PyNone
  | PyBool bool
  | PyInt int
  | PyFloat int int
  | PyStr string
  | PySeq "pyval list"
  | PyObj nat

datatype error =
    AttributeError
  | TypeError
  | ValueError
  | KeyError
  | DCAMError string

text \<open>\<open>" ".join(xs)\<close>: every item has to be a string.\<close>

fun py_join :: "pyval list \<Rightarrow> error + string" where
  "py_join [] = Inr []"
| "py_join (PyStr s # rest) =
     (case py_join rest of
        Inl e \<Rightarrow> Inl e
      | Inr t \<Rightarrow> Inr (if rest = [] then s else s @ '' '' @ t))"
| "py_join (x # rest) = Inl TypeError"

subsection \<open>The device-control library\<close>

text \<open>The methods of the library's camera object that the adapter calls.\<close>

datatype dcam_call =
    DCAM_close
  | DCAM_get_name
  | DCAM_get_data_dimensions
  | DCAM_setup_acquisition string int
  | DCAM_start_acquisition string int
  | DCAM_wait_for_frame
  | DCAM_get_status
  | DCAM_stop_acquisition
  | DCAM_acquisition_in_progress
  | DCAM_read_newest_image
  | DCAM_set_exposure pyval
  | DCAM_get_exposure
  | DCAM_set_contrast_gain pyval
  | DCAM_get_contrast_gain
  | DCAM_set_sensitivity pyval
  | DCAM_get_sensitivity
  | DCAM_set_roi pyval pyval pyval pyval pyval
  | DCAM_get_roi
  | DCAM_set_trigger_mode pyval
  | DCAM_get_trigger_mode

text \<open>
  What the adapter does to the library, in the order it does it: writing and deleting
  the entry \<open>devices/dlls/dcamapi\<close> of \<open>pylablib.par\<close>, constructing a camera
  object, and calling a method of the camera object with a given handle.
\<close>

datatype event =
    Par_set pyval
  | Par_del
  | New_camera
  | Call nat dcam_call

text \<open>
  The library and the device: what the constructor \<open>DCAM.DCAMCamera()\<close> answers (a
  new camera object, named by its handle, or an exception), what a method of a camera
  object answers (a value or an exception), and what \<open>del pylablib.par[key]\<close> does
  when there is no such entry (nothing, or an exception). An answer depends on
  everything the adapter has done before, which is the first argument. Every call is
  taken to return or to raise. With the library come the objects it hands out: what
  the truth test of such an object gives (a boolean, or an exception as for a frame of
  several pixels) and what iterating over it gives (its items, or an exception).
\<close>

record sdk =
  new_camera :: "event list \<Rightarrow> error + nat"
  reply :: "event list \<Rightarrow> nat \<Rightarrow> dcam_call \<Rightarrow> error + pyval"
  del_absent :: "error option"
  obj_truth :: "nat \<Rightarrow> error + bool"
  obj_items :: "nat \<Rightarrow> error + pyval list"

text \<open>
  Python's truth test, as \<open>True if x else False\<close> runs it: decided for the built-in
  values, left to the object otherwise.
\<close>

fun truthy :: "sdk \<Rightarrow> pyval \<Rightarrow> error + bool" where
  "truthy lib PyNone = Inr False"
| "truthy lib (PyBool b) = Inr b"
| "truthy lib (PyInt n) = Inr (n \<noteq> 0)"
| "truthy lib (PyFloat m e) = Inr (m \<noteq> 0)"
| "truthy lib (PyStr s) = Inr (s \<noteq> [])"
| "truthy lib (PySeq xs) = Inr (xs \<noteq> [])"
| "truthy lib (PyObj n) = obj_truth lib n"

text \<open>\<open>tuple(x)\<close>: the items of an iterable; a string yields its characters.\<close>

fun py_tuple :: "sdk \<Rightarrow> pyval \<Rightarrow> error + pyval list" where
  "py_tuple lib (PyStr s) = Inr (map (\<lambda>c. PyStr [c]) s)"
| "py_tuple lib (PySeq xs) = Inr xs"
| "py_tuple lib PyNone = Inl TypeError"
| "py_tuple lib (PyBool b) = Inl TypeError"
| "py_tuple lib (PyInt n) = Inl TypeError"
| "py_tuple lib (PyFloat m e) = Inl TypeError"
| "py_tuple lib (PyObj n) = obj_items lib n"

subsection \<open>The adapter's state\<close>

text \<open>The configuration options of the class, fixed when the module is loaded.\<close>

record config =
  dll_location :: pyval
  default_exposure :: pyval
  default_gain :: pyval
  default_acquisition_mode :: pyval
  default_trigger_mode :: pyval
  default_ROI :: pyval
  default_hbin :: pyval

text \<open>
  The attributes of an instance, with the process-wide \<open>pylablib.par\<close> and the
  history of what was done to the library. \<open>gain\<close> is \<open>self._gain\<close> and \<open>cam\<close> is
  \<open>self.cam\<close>, both \<open>None\<close> in the class; \<open>bin_value\<close> is \<open>self._bin_value\<close>,
  which the class does not have: \<open>None\<close> here says that the attribute is missing.
\<close>

record world =
  gain :: pyval
  bin_value :: "pyval option"
  cam :: "nat option"
  par :: "string \<Rightarrow> pyval option"
  trace :: "event list"

definition dll_key :: string where
  "dll_key = ''devices/dlls/dcamapi''"

text \<open>An instance on which no method has run yet, in a process with the given past.\<close>

definition fresh_instance :: "(string \<Rightarrow> pyval option) \<Rightarrow> event list \<Rightarrow> world" where
  "fresh_instance p t = \<lparr>gain = PyNone, bin_value = None, cam = None, par = p, trace = t\<rparr>"

subsection \<open>Statements that may raise\<close>

text \<open>
  A statement turns a state into a result, a value or the exception raised, and the
  state it leaves. What a method has changed before it raises stays changed.
\<close>

type_synonym 'a prog = "world \<Rightarrow> (error + 'a) \<times> world"

definition ok :: "'a \<Rightarrow> 'a prog" where
  "ok x w = (Inr x, w)"

definition andthen :: "'a prog \<Rightarrow> ('a \<Rightarrow> 'b prog) \<Rightarrow> 'b prog" where
  "andthen p f w = (case p w of (Inl e, w1) \<Rightarrow> (Inl e, w1) | (Inr x, w1) \<Rightarrow> f x w1)"

text \<open>\<open>pylablib.par["devices/dlls/dcamapi"] = v\<close>\<close>

definition par_set :: "pyval \<Rightarrow> pyval prog" where
  "par_set v w = (Inr PyNone, w\<lparr>par := (par w)(dll_key \<mapsto> v), trace := trace w @ [Par_set v]\<rparr>)"

text \<open>\<open>del pylablib.par["devices/dlls/dcamapi"]\<close>\<close>

definition par_del :: "sdk \<Rightarrow> pyval prog" where
  "par_del lib w =
     (case par w dll_key of
        None \<Rightarrow>
          (case del_absent lib of
             Some e \<Rightarrow> (Inl e, w\<lparr>trace := trace w @ [Par_del]\<rparr>)
           | None \<Rightarrow> (Inr PyNone, w\<lparr>trace := trace w @ [Par_del]\<rparr>))
      | Some v \<Rightarrow>
          (Inr PyNone, w\<lparr>par := (par w)(dll_key := None), trace := trace w @ [Par_del]\<rparr>))"

text \<open>\<open>self.cam = DCAM.DCAMCamera()\<close>: the attribute is assigned when the constructor returns.\<close>

definition open_camera :: "sdk \<Rightarrow> pyval prog" where
  "open_camera lib w =
     (case new_camera lib (trace w) of
        Inl e \<Rightarrow> (Inl e, w\<lparr>trace := trace w @ [New_camera]\<rparr>)
      | Inr h \<Rightarrow> (Inr PyNone, w\<lparr>cam := Some h, trace := trace w @ [New_camera]\<rparr>))"

text \<open>
  \<open>self.cam.m(...)\<close>: while \<open>self.cam\<close> is \<open>None\<close> the attribute lookup raises
  and the library is not called.
\<close>

definition cam_call :: "sdk \<Rightarrow> dcam_call \<Rightarrow> pyval prog" where
  "cam_call lib c w =
     (case cam w of
        None \<Rightarrow> (Inl AttributeError, w)
      | Some h \<Rightarrow> (reply lib (trace w) h c, w\<lparr>trace := trace w @ [Call h c]\<rparr>))"

subsection \<open>The methods of the adapter\<close>

definition set_gain :: "pyval \<Rightarrow> pyval prog" where
  "set_gain g w = (Inr PyNone, w\<lparr>gain := g\<rparr>)"

definition get_gain :: "pyval prog" where
  "get_gain w = (Inr (gain w), w)"

definition set_binning_value :: "pyval \<Rightarrow> pyval prog" where
  "set_binning_value b w = (Inr PyNone, w\<lparr>bin_value := Some b\<rparr>)"

definition get_binning_value :: "pyval prog" where
  "get_binning_value w =
     (case bin_value w of None \<Rightarrow> (Inl AttributeError, w) | Some b \<Rightarrow> (Inr b, w))"

definition on_activate :: "config \<Rightarrow> sdk \<Rightarrow> pyval prog" where
  "on_activate cfg lib =
     andthen (par_set (dll_location cfg)) (\<lambda>_.
     andthen (open_camera lib) (\<lambda>_.
     andthen (cam_call lib (DCAM_set_exposure (default_exposure cfg))) (\<lambda>_.
     set_gain (default_gain cfg))))"

definition on_deactivate :: "sdk \<Rightarrow> pyval prog" where
  "on_deactivate lib =
     andthen (cam_call lib DCAM_close) (\<lambda>_.
     par_del lib)"

definition get_name :: "sdk \<Rightarrow> pyval prog" where
  "get_name lib =
     andthen (cam_call lib DCAM_get_name) (\<lambda>n w.
       (case py_tuple lib n of
          Inl e \<Rightarrow> (Inl e, w)
        | Inr xs \<Rightarrow> (case py_join xs of Inl e \<Rightarrow> (Inl e, w) | Inr s \<Rightarrow> (Inr (PyStr s), w))))"

definition get_size :: "sdk \<Rightarrow> pyval prog" where
  "get_size lib = cam_call lib DCAM_get_data_dimensions"

definition support_live_acquisition :: "pyval prog" where
  "support_live_acquisition = ok (PyBool True)"

definition set_trigger_mode :: "sdk \<Rightarrow> pyval \<Rightarrow> pyval prog" where
  "set_trigger_mode lib trigger_mode =
     andthen (cam_call lib (DCAM_set_trigger_mode trigger_mode)) (\<lambda>_. ok PyNone)"

definition get_trigger_mode :: "sdk \<Rightarrow> pyval prog" where
  "get_trigger_mode lib = cam_call lib DCAM_get_trigger_mode"

definition start_single_acquisition :: "sdk \<Rightarrow> pyval prog" where
  "start_single_acquisition lib =
     andthen (get_trigger_mode lib) (\<lambda>tm.
     andthen (if tm \<noteq> PyStr ''int'' then set_trigger_mode lib (PyStr ''int'') else ok PyNone) (\<lambda>_.
     andthen (cam_call lib (DCAM_setup_acquisition ''snap'' 1)) (\<lambda>_.
     andthen (cam_call lib (DCAM_start_acquisition ''snap'' 1)) (\<lambda>_.
     andthen (cam_call lib DCAM_wait_for_frame) (\<lambda>_.
     andthen (cam_call lib DCAM_get_status) (\<lambda>st.
     ok (PyBool (st \<noteq> PyStr ''error''))))))))"

definition start_live_acquisition :: "sdk \<Rightarrow> pyval prog" where
  "start_live_acquisition lib =
     andthen (get_trigger_mode lib) (\<lambda>tm.
     andthen (if tm \<noteq> PyStr ''int'' then set_trigger_mode lib (PyStr ''int'') else ok PyNone) (\<lambda>_.
     andthen (cam_call lib (DCAM_setup_acquisition ''sequence'' 100)) (\<lambda>_.
     andthen (cam_call lib (DCAM_start_acquisition ''sequence'' 100)) (\<lambda>_.
     andthen (cam_call lib DCAM_get_status) (\<lambda>st.
     ok (PyBool (st \<noteq> PyStr ''error'')))))))"

definition stop_acquisition :: "sdk \<Rightarrow> pyval prog" where
  "stop_acquisition lib =
     andthen (cam_call lib DCAM_stop_acquisition) (\<lambda>_.
     andthen (cam_call lib DCAM_acquisition_in_progress) (\<lambda>a w.
       (case truthy lib a of
          Inl e \<Rightarrow> (Inl e, w)
        | Inr is_acquiring \<Rightarrow> (Inr (PyBool (\<not> is_acquiring)), w))))"

definition get_acquired_data :: "sdk \<Rightarrow> pyval prog" where
  "get_acquired_data lib = cam_call lib DCAM_read_newest_image"

definition set_exposure :: "sdk \<Rightarrow> pyval \<Rightarrow> pyval prog" where
  "set_exposure lib exposure =
     andthen (cam_call lib (DCAM_set_exposure exposure)) (\<lambda>_. ok PyNone)"

definition get_exposure :: "sdk \<Rightarrow> pyval prog" where
  "get_exposure lib = cam_call lib DCAM_get_exposure"

definition set_contrast_gain :: "sdk \<Rightarrow> pyval \<Rightarrow> pyval prog" where
  "set_contrast_gain lib v =
     andthen (cam_call lib (DCAM_set_contrast_gain v)) (\<lambda>_. ok PyNone)"

definition get_contrast_gain :: "sdk \<Rightarrow> pyval prog" where
  "get_contrast_gain lib = cam_call lib DCAM_get_contrast_gain"

definition set_sensitivity :: "sdk \<Rightarrow> pyval \<Rightarrow> pyval prog" where
  "set_sensitivity lib v =
     andthen (cam_call lib (DCAM_set_sensitivity v)) (\<lambda>_. ok PyNone)"

definition get_sensitivity :: "sdk \<Rightarrow> pyval prog" where
  "get_sensitivity lib = cam_call lib DCAM_get_sensitivity"

definition get_ready_state :: "sdk \<Rightarrow> pyval prog" where
  "get_ready_state lib =
     andthen (cam_call lib DCAM_get_status) (\<lambda>st.
     ok (PyBool (st = PyStr ''ready'')))"

definition set_region_of_interest ::
  "sdk \<Rightarrow> pyval \<Rightarrow> pyval \<Rightarrow> pyval \<Rightarrow> pyval \<Rightarrow> pyval \<Rightarrow> pyval prog" where
  "set_region_of_interest lib hstart hend vstart vend hbin =
     andthen (cam_call lib (DCAM_set_roi hstart hend vstart vend hbin)) (\<lambda>_. ok PyNone)"

definition get_ROI :: "sdk \<Rightarrow> pyval prog" where
  "get_ROI lib = cam_call lib DCAM_get_roi"

text \<open>The method \<open>_get_status\<close> of the class.\<close>

definition get_status :: "sdk \<Rightarrow> pyval prog" where
  "get_status lib = cam_call lib DCAM_get_status"

subsection \<open>Sequences of method calls\<close>

datatype op =
    Op_on_activate
  | Op_on_deactivate
  | Op_get_name
  | Op_get_size
  | Op_support_live_acquisition
  | Op_start_single_acquisition
  | Op_start_live_acquisition
  | Op_stop_acquisition
  | Op_get_acquired_data
  | Op_set_exposure pyval
  | Op_get_exposure
  | Op_set_gain pyval
  | Op_get_gain
  | Op_set_contrast_gain pyval
  | Op_get_contrast_gain
  | Op_set_sensitivity pyval
  | Op_get_sensitivity
  | Op_get_ready_state
  | Op_set_region_of_interest pyval pyval pyval pyval pyval
  | Op_get_ROI
  | Op_set_trigger_mode pyval
  | Op_get_trigger_mode
  | Op_set_binning_value pyval
  | Op_get_binning_value
  | Op_get_status

fun run_op :: "config \<Rightarrow> sdk \<Rightarrow> op \<Rightarrow> pyval prog" where
  "run_op cfg lib Op_on_activate = on_activate cfg lib"
| "run_op cfg lib Op_on_deactivate = on_deactivate lib"
| "run_op cfg lib Op_get_name = get_name lib"
| "run_op cfg lib Op_get_size = get_size lib"
| "run_op cfg lib Op_support_live_acquisition = support_live_acquisition"
| "run_op cfg lib Op_start_single_acquisition = start_single_acquisition lib"
| "run_op cfg lib Op_start_live_acquisition = start_live_acquisition lib"
| "run_op cfg lib Op_stop_acquisition = stop_acquisition lib"
| "run_op cfg lib Op_get_acquired_data = get_acquired_data lib"
| "run_op cfg lib (Op_set_exposure v) = set_exposure lib v"
| "run_op cfg lib Op_get_exposure = get_exposure lib"
| "run_op cfg lib (Op_set_gain g) = set_gain g"
| "run_op cfg lib Op_get_gain = get_gain"
| "run_op cfg lib (Op_set_contrast_gain v) = set_contrast_gain lib v"
| "run_op cfg lib Op_get_contrast_gain = get_contrast_gain lib"
| "run_op cfg lib (Op_set_sensitivity v) = set_sensitivity lib v"
| "run_op cfg lib Op_get_sensitivity = get_sensitivity lib"
| "run_op cfg lib Op_get_ready_state = get_ready_state lib"
| "run_op cfg lib (Op_set_region_of_interest a b c d e) = set_region_of_interest lib a b c d e"
| "run_op cfg lib Op_get_ROI = get_ROI lib"
| "run_op cfg lib (Op_set_trigger_mode m) = set_trigger_mode lib m"
| "run_op cfg lib Op_get_trigger_mode = get_trigger_mode lib"
| "run_op cfg lib (Op_set_binning_value b) = set_binning_value b"
| "run_op cfg lib Op_get_binning_value = get_binning_value"
| "run_op cfg lib Op_get_status = get_status lib"

text \<open>
  The caller goes on after a method has raised: the state left by one call is the
  state the next one starts in, whatever the result.
\<close>

fun run_ops :: "config \<Rightarrow> sdk \<Rightarrow> op list \<Rightarrow> world \<Rightarrow> world" where
  "run_ops cfg lib [] w = w"
| "run_ops cfg lib (x # xs) w = run_ops cfg lib xs (snd (run_op cfg lib x w))"

text \<open>The operations through which \<open>set_gain\<close> is called: itself and the activation.\<close>

fun calls_set_gain :: "op \<Rightarrow> bool" where
  "calls_set_gain Op_on_activate = True"
| "calls_set_gain (Op_set_gain g) = True"
| "calls_set_gain x = False"

fun calls_set_binning_value :: "op \<Rightarrow> bool" where
  "calls_set_binning_value (Op_set_binning_value b) = True"
| "calls_set_binning_value x = False"

subsection \<open>Three simulated cameras\<close>

text \<open>
  Concrete libraries on which the theorems below are run. The first camera works: it
  takes the four trigger modes and rejects any other, remembers the trigger mode last
  set (external at first), is acquiring from a start until the frame has been waited
  for or a stop, and reports \<open>busy\<close> or \<open>ready\<close>. Its frames are objects whose
  truth test and iteration raise.
\<close>

definition valid_mode :: "pyval \<Rightarrow> bool" where
  "valid_mode m =
     (m = PyStr ''int'' \<or> m = PyStr ''ext'' \<or> m = PyStr ''software'' \<or>
      m = PyStr ''master_pulse'')"

fun sim_trigger :: "pyval \<Rightarrow> event list \<Rightarrow> pyval" where
  "sim_trigger m [] = m"
| "sim_trigger m (Call h (DCAM_set_trigger_mode x) # es) =
     sim_trigger (if valid_mode x then x else m) es"
| "sim_trigger m (e # es) = sim_trigger m es"

fun sim_busy :: "bool \<Rightarrow> event list \<Rightarrow> bool" where
  "sim_busy b [] = b"
| "sim_busy b (Call h (DCAM_start_acquisition m n) # es) = sim_busy True es"
| "sim_busy b (Call h DCAM_wait_for_frame # es) = sim_busy False es"
| "sim_busy b (Call h DCAM_stop_acquisition # es) = sim_busy False es"
| "sim_busy b (e # es) = sim_busy b es"

fun sim_reply :: "event list \<Rightarrow> nat \<Rightarrow> dcam_call \<Rightarrow> error + pyval" where
  "sim_reply t h DCAM_get_trigger_mode = Inr (sim_trigger (PyStr ''ext'') t)"
| "sim_reply t h DCAM_get_status = Inr (PyStr (if sim_busy False t then ''busy'' else ''ready''))"
| "sim_reply t h DCAM_acquisition_in_progress = Inr (PyBool (sim_busy False t))"
| "sim_reply t h DCAM_get_name = Inr (PySeq [PyStr ''Hamamatsu'', PyStr ''C9100-23B''])"
| "sim_reply t h (DCAM_set_trigger_mode m) =
     (if valid_mode m then Inr PyNone else Inl (DCAMError ''unknown trigger mode''))"
| "sim_reply t h DCAM_read_newest_image = Inr (PyObj (length t))"
| "sim_reply t h c = Inr PyNone"

definition sim_sdk :: sdk where
  "sim_sdk =
     \<lparr>new_camera = (\<lambda>t. Inr 1), reply = sim_reply, del_absent = None,
      obj_truth = (\<lambda>n. Inl ValueError), obj_items = (\<lambda>n. Inl ValueError)\<rparr>"

text \<open>
  The second camera fails: once an acquisition has been started its status is
  \<open>error\<close>, and it goes on reporting an acquisition in progress after a stop.
\<close>

fun started :: "event list \<Rightarrow> bool" where
  "started [] = False"
| "started (Call h (DCAM_start_acquisition m n) # es) = True"
| "started (e # es) = started es"

fun broken_reply :: "event list \<Rightarrow> nat \<Rightarrow> dcam_call \<Rightarrow> error + pyval" where
  "broken_reply t h DCAM_get_trigger_mode = Inr (PyStr ''int'')"
| "broken_reply t h DCAM_get_status = Inr (PyStr (if started t then ''error'' else ''ready''))"
| "broken_reply t h DCAM_acquisition_in_progress = Inr (PyBool (started t))"
| "broken_reply t h c = Inr PyNone"

definition broken_sdk :: sdk where
  "broken_sdk =
     \<lparr>new_camera = (\<lambda>t. Inr 1), reply = broken_reply, del_absent = None,
      obj_truth = (\<lambda>n. Inr True), obj_items = (\<lambda>n. Inl TypeError)\<rparr>"

text \<open>
  The third camera answers every call with a frame, an object whose truth test raises
  \<open>ValueError\<close>.
\<close>

definition frame_sdk :: sdk where
  "frame_sdk =
     \<lparr>new_camera = (\<lambda>t. Inr 1), reply = (\<lambda>t h c. Inr (PyObj 0)), del_absent = None,
      obj_truth = (\<lambda>n. Inl ValueError), obj_items = (\<lambda>n. Inl ValueError)\<rparr>"

definition demo_cfg :: config where
  "demo_cfg =
     \<lparr>dll_location = PyStr ''C:/Adyant/dlls'',
      default_exposure = PyFloat 1 0,
      default_gain = PyFloat 1 0,
      default_acquisition_mode = PyStr ''sequence'',
      default_trigger_mode = PyStr ''int'',
      default_ROI = PySeq [PyInt 0, PyInt 1, PyInt 0, PyInt 1],
      default_hbin = PyFloat 1 0\<rparr>"

text \<open>A new instance in a new process, and the same after a successful activation.\<close>

definition new_process :: world where
  "new_process = fresh_instance (\<lambda>k. None) []"

definition activated :: "sdk \<Rightarrow> world" where
  "activated lib = snd (on_activate demo_cfg lib new_process)"

text \<open>The state after an acquisition has been started on an activated instance.\<close>

definition single_started :: "sdk \<Rightarrow> world" where
  "single_started lib = snd (start_single_acquisition lib (activated lib))"

definition live_started :: "sdk \<Rightarrow> world" where
  "live_started lib = snd (start_live_acquisition lib (activated lib))"

section \<open>Properties\<close>

subsection \<open>What a statement keeps\<close>

lemmas method_defs =
  on_deactivate_def get_name_def get_size_def support_live_acquisition_def
  set_trigger_mode_def get_trigger_mode_def start_single_acquisition_def
  start_live_acquisition_def stop_acquisition_def get_acquired_data_def set_exposure_def
  get_exposure_def set_contrast_gain_def get_contrast_gain_def set_sensitivity_def
  get_sensitivity_def get_ready_state_def set_region_of_interest_def get_ROI_def
  get_status_def

lemmas demo_defs =
  sim_sdk_def broken_sdk_def frame_sdk_def valid_mode_def demo_cfg_def new_process_def activated_def fresh_instance_def
  on_activate_def par_set_def par_del_def open_camera_def cam_call_def set_gain_def
  get_gain_def set_binning_value_def get_binning_value_def andthen_def ok_def dll_key_def

text \<open>
  A property of the state that every step of a sequence keeps is kept by the
  sequence, whether it ends in a value or in an exception.
\<close>

lemma andthen_inv:
  assumes "\<And>w. P w \<Longrightarrow> P (snd (p w))" and "\<And>x w. P w \<Longrightarrow> P (snd (q x w))"
  shows "P w \<Longrightarrow> P (snd (andthen p q w))"
proof -
  assume w: "P w"
  obtain r w1 where pw: "p w = (r, w1)" by (cases "p w")
  from assms(1) [OF w] pw have w1: "P w1" by simp
  show ?thesis
  proof (cases r)
    case (Inl e)
    with pw w1 show ?thesis by (simp add: andthen_def)
  next
    case (Inr x)
    with pw assms(2) [OF w1, of x] show ?thesis by (simp add: andthen_def)
  qed
qed

lemma if_inv:
  assumes "\<And>w. P w \<Longrightarrow> P (snd (p w))" and "\<And>w. P w \<Longrightarrow> P (snd (q w))"
  shows "P w \<Longrightarrow> P (snd ((if c then p else q) w))"
  using assms by simp

lemma ok_inv: "P w \<Longrightarrow> P (snd (ok x w))"
  by (simp add: ok_def)

lemma cam_call_inv:
  assumes "\<And>w t. P (w\<lparr>trace := t\<rparr>) = P w"
  shows "P w \<Longrightarrow> P (snd (cam_call lib c w))"
  using assms by (simp add: cam_call_def split: option.splits)

lemma par_del_inv:
  assumes "\<And>w t. P (w\<lparr>trace := t\<rparr>) = P w" and "\<And>w m. P (w\<lparr>par := m\<rparr>) = P w"
  shows "P w \<Longrightarrow> P (snd (par_del lib w))"
  using assms by (simp add: par_del_def split: option.splits)

lemma get_name_inv:
  assumes "\<And>w t. P (w\<lparr>trace := t\<rparr>) = P w"
  shows "P w \<Longrightarrow> P (snd (get_name lib w))"
  unfolding get_name_def
  by (rule andthen_inv [where P = P])
     (simp_all add: cam_call_inv [where P = P, OF assms] split: sum.splits)

lemma stop_acquisition_inv:
  assumes "\<And>w t. P (w\<lparr>trace := t\<rparr>) = P w"
  shows "P w \<Longrightarrow> P (snd (stop_acquisition lib w))"
  unfolding stop_acquisition_def
  by (intro andthen_inv [where P = P] cam_call_inv [where P = P, OF assms])
     (simp_all split: sum.splits)

text \<open>
  Every operation but the two setters of the cached values and the activation keeps
  whatever does not depend on the history and on \<open>pylablib.par\<close>.
\<close>

lemma forwarding_inv:
  assumes tr: "\<And>w t. P (w\<lparr>trace := t\<rparr>) = P w" and pa: "\<And>w m. P (w\<lparr>par := m\<rparr>) = P w"
    and x: "\<not> calls_set_gain x" "\<not> calls_set_binning_value x"
  shows "P w \<Longrightarrow> P (snd (run_op cfg lib x w))"
proof -
  note step = andthen_inv [where P = P] if_inv [where P = P] ok_inv [where P = P]
    cam_call_inv [where P = P, OF tr] par_del_inv [where P = P, OF tr pa]
  assume w: "P w"
  from x w show ?thesis
    by (cases x; simp add: get_name_inv [where P = P, OF tr]
          stop_acquisition_inv [where P = P, OF tr] get_gain_def
          get_binning_value_def split: option.splits)
       (simp_all only: method_defs, (intro step; assumption)+)
qed

lemma run_op_gain:
  assumes "\<not> calls_set_gain x"
  shows "gain (snd (run_op cfg lib x w)) = gain w"
proof (cases "calls_set_binning_value x")
  case True
  then show ?thesis by (cases x) (simp_all add: set_binning_value_def)
next
  case False
  have "(\<lambda>v. gain v = gain w) (snd (run_op cfg lib x w))"
    by (rule forwarding_inv [OF _ _ assms False]) simp_all
  then show ?thesis .
qed

lemma run_ops_gain:
  "list_all (\<lambda>x. \<not> calls_set_gain x) xs \<Longrightarrow> gain (run_ops cfg lib xs w) = gain w"
  by (induction xs arbitrary: w) (simp_all add: run_op_gain)

lemma on_activate_bin_value: "bin_value (snd (on_activate cfg lib w)) = bin_value w"
  by (simp add: on_activate_def andthen_def par_set_def open_camera_def cam_call_def
      set_gain_def split: sum.splits)

lemma run_op_bin_value:
  assumes "\<not> calls_set_binning_value x"
  shows "bin_value (snd (run_op cfg lib x w)) = bin_value w"
proof (cases "calls_set_gain x")
  case True
  then show ?thesis by (cases x) (simp_all add: set_gain_def on_activate_bin_value)
next
  case False
  have "(\<lambda>v. bin_value v = bin_value w) (snd (run_op cfg lib x w))"
    by (rule forwarding_inv [OF _ _ False assms]) simp_all
  then show ?thesis .
qed

lemma run_ops_bin_value:
  "list_all (\<lambda>x. \<not> calls_set_binning_value x) xs \<Longrightarrow>
     bin_value (run_ops cfg lib xs w) = bin_value w"
  by (induction xs arbitrary: w) (simp_all add: run_op_bin_value)

lemma on_activate_cam: "cam w \<noteq> None \<Longrightarrow> cam (snd (on_activate cfg lib w)) \<noteq> None"
  by (simp add: on_activate_def andthen_def par_set_def open_camera_def cam_call_def
      set_gain_def split: sum.splits)

lemma run_op_cam:
  assumes "cam w \<noteq> None"
  shows "cam (snd (run_op cfg lib x w)) \<noteq> None"
proof (cases "calls_set_gain x \<or> calls_set_binning_value x")
  case True
  with assms show ?thesis
    by (cases x) (simp_all add: set_gain_def set_binning_value_def on_activate_cam)
next
  case False
  have "(\<lambda>v. cam v \<noteq> None) (snd (run_op cfg lib x w))"
    by (rule forwarding_inv) (use False assms in simp_all)
  then show ?thesis .
qed

lemma run_ops_cam: "cam w \<noteq> None \<Longrightarrow> cam (run_ops cfg lib xs w) \<noteq> None"
proof (induction xs arbitrary: w)
  case Nil
  then show ?case by simp
next
  case (Cons x xs)
  from Cons.prems have "cam (snd (run_op cfg lib x w)) \<noteq> None"
    by (rule run_op_cam)
  then have "cam (run_ops cfg lib xs (snd (run_op cfg lib x w))) \<noteq> None"
    by (rule Cons.IH)
  then show ?case by simp
qed

lemma cam_call_Some:
  "cam w = Some h \<Longrightarrow>
     cam_call lib c w = (reply lib (trace w) h c, w\<lparr>trace := trace w @ [Call h c]\<rparr>)"
  by (simp add: cam_call_def)

subsection \<open>The cached gain\<close>

lemma on_activate_gain:
  "gain (snd (on_activate cfg lib w)) =
     (if isl (fst (on_activate cfg lib w)) then gain w else default_gain cfg)"
  by (simp add: on_activate_def andthen_def par_set_def open_camera_def cam_call_def
      set_gain_def split: sum.splits)

text \<open>
  Claim C1. After \<open>set_gain(g)\<close>, and then any sequence of operations through which
  \<open>set_gain\<close> is not called again (every operation but \<open>set_gain\<close> itself and the
  activation), \<open>get_gain\<close> returns \<open>g\<close> and leaves the state, and with it the
  history of calls to the library, as it was. The activation calls \<open>set_gain\<close> with
  the default gain as its last step: after an activation that returns, \<open>get_gain\<close>
  returns the default gain, and after one that raises, the value cached before. This
  holds for every library and from every state: the value comes from the instance.
\<close>

theorem get_gain_returns_last_set_gain:
  assumes "list_all (\<lambda>x. \<not> calls_set_gain x) xs"
  shows "run_op cfg lib Op_get_gain (run_ops cfg lib (Op_set_gain g # xs) w) =
      (Inr g, run_ops cfg lib (Op_set_gain g # xs) w) \<and>
    run_op cfg lib Op_get_gain (run_ops cfg lib (Op_on_activate # xs) w) =
      (Inr (if isl (fst (on_activate cfg lib w)) then gain w else default_gain cfg),
       run_ops cfg lib (Op_on_activate # xs) w)"
proof -
  from assms have "gain (run_ops cfg lib xs (snd (set_gain g w))) = gain (snd (set_gain g w))"
    by (rule run_ops_gain)
  moreover from assms have "gain (run_ops cfg lib xs (snd (on_activate cfg lib w))) =
      gain (snd (on_activate cfg lib w))"
    by (rule run_ops_gain)
  ultimately show ?thesis by (simp add: get_gain_def set_gain_def on_activate_gain)
qed

theorem get_gain_returns_last_set_gain_witness:
  "list_all (\<lambda>x. \<not> calls_set_gain x)
     [Op_start_single_acquisition, Op_set_exposure (PyFloat 1 (-1)), Op_get_exposure,
      Op_set_binning_value (PyInt 2), Op_on_deactivate] \<and>
   fst (run_op demo_cfg sim_sdk Op_get_gain
     (run_ops demo_cfg sim_sdk
       (Op_set_gain (PyInt 5) #
        [Op_start_single_acquisition, Op_set_exposure (PyFloat 1 (-1)), Op_get_exposure,
         Op_set_binning_value (PyInt 2), Op_on_deactivate])
       (activated sim_sdk))) = Inr (PyInt 5) \<and>
   fst (run_op demo_cfg sim_sdk Op_get_gain
     (run_ops demo_cfg sim_sdk
       (Op_on_activate #
        [Op_start_single_acquisition, Op_set_exposure (PyFloat 1 (-1)), Op_get_exposure,
         Op_set_binning_value (PyInt 2), Op_on_deactivate])
       (activated sim_sdk))) = Inr (PyFloat 1 0)"
  using get_gain_returns_last_set_gain [of
      "[Op_start_single_acquisition, Op_set_exposure (PyFloat 1 (-1)), Op_get_exposure,
        Op_set_binning_value (PyInt 2), Op_on_deactivate]"
      demo_cfg sim_sdk "PyInt 5" "activated sim_sdk"]
  by (simp add: demo_defs)

subsection \<open>The camera handle\<close>

text \<open>
  Claim C2, as stated, fails: \<open>on_deactivate\<close> closes the camera and does not assign
  \<open>self.cam\<close>, so after an activation and a deactivation that both complete the
  handle is still there.
\<close>

theorem cam_after_deactivation_counterexample:
  "fst (on_activate demo_cfg sim_sdk new_process) = Inr PyNone \<and>
   fst (on_deactivate sim_sdk (activated sim_sdk)) = Inr PyNone \<and>
   cam (snd (on_deactivate sim_sdk (activated sim_sdk))) = Some 1 \<and>
   cam (snd (on_deactivate sim_sdk (activated sim_sdk))) \<noteq> None"
  by (simp add: demo_defs on_deactivate_def)

text \<open>
  Claim C2, amended. The handle is missing on a fresh instance and present after an
  activation that completes; a deactivation that completes started with a handle and
  leaves the same handle; and once present, the handle stays present through every
  sequence of operations.
\<close>

theorem cam_set_by_activation_and_kept:
  "cam (fresh_instance p t) = None \<and>
   (on_activate cfg lib w = (Inr r, w') \<longrightarrow> cam w' \<noteq> None) \<and>
   (on_deactivate lib w = (Inr r, w') \<longrightarrow> cam w' = cam w \<and> cam w' \<noteq> None) \<and>
   (cam w \<noteq> None \<longrightarrow> cam (run_ops cfg lib xs w) \<noteq> None)"
proof -
  have "cam (fresh_instance p t) = None"
    by (simp add: fresh_instance_def)
  moreover have "on_activate cfg lib w = (Inr r, w') \<longrightarrow> cam w' \<noteq> None"
    by (auto simp: on_activate_def andthen_def par_set_def open_camera_def cam_call_def
        set_gain_def split: sum.splits)
  moreover have "on_deactivate lib w = (Inr r, w') \<longrightarrow> cam w' = cam w \<and> cam w' \<noteq> None"
    by (auto simp: on_deactivate_def andthen_def cam_call_def par_del_def
        split: sum.splits option.splits)
  moreover have "cam w \<noteq> None \<longrightarrow> cam (run_ops cfg lib xs w) \<noteq> None"
    using run_ops_cam by blast
  ultimately show ?thesis by blast
qed

theorem cam_set_by_activation_and_kept_witness:
  "on_activate demo_cfg sim_sdk new_process = (Inr PyNone, activated sim_sdk) \<and>
   cam (activated sim_sdk) \<noteq> None \<and>
   on_deactivate sim_sdk (activated sim_sdk) =
     (Inr PyNone, snd (on_deactivate sim_sdk (activated sim_sdk))) \<and>
   cam (snd (on_deactivate sim_sdk (activated sim_sdk))) = cam (activated sim_sdk) \<and>
   cam (run_ops demo_cfg sim_sdk
     [Op_start_live_acquisition, Op_on_deactivate, Op_get_exposure] (activated sim_sdk)) \<noteq> None"
proof -
  have a: "on_activate demo_cfg sim_sdk new_process = (Inr PyNone, activated sim_sdk)"
    by (simp add: demo_defs)
  have d: "on_deactivate sim_sdk (activated sim_sdk) =
      (Inr PyNone, snd (on_deactivate sim_sdk (activated sim_sdk)))"
    by (simp add: demo_defs on_deactivate_def)
  from a d
    cam_set_by_activation_and_kept [of "\<lambda>k. None" "[]" demo_cfg sim_sdk new_process PyNone
      "activated sim_sdk" "[]"]
    cam_set_by_activation_and_kept [of "\<lambda>k. None" "[]" demo_cfg sim_sdk "activated sim_sdk"
      PyNone "snd (on_deactivate sim_sdk (activated sim_sdk))"
      "[Op_start_live_acquisition, Op_on_deactivate, Op_get_exposure]"]
  show ?thesis by blast
qed

subsection \<open>Starting an acquisition\<close>

text \<open>
  Whatever the library answers, \<open>start_single_acquisition\<close> makes its calls in one
  order: a run that an exception ends has made the first few of the calls of a run
  that returns.
\<close>

lemma start_single_acquisition_calls_prefix:
  assumes "cam w = Some h"
    and "reply lib (trace w) h DCAM_get_trigger_mode = Inr tm"
  shows "prefix (trace w) (trace (snd (start_single_acquisition lib w))) \<and>
    prefix (trace (snd (start_single_acquisition lib w)))
      (trace w @ Call h DCAM_get_trigger_mode #
        (if tm \<noteq> PyStr ''int'' then [Call h (DCAM_set_trigger_mode (PyStr ''int''))] else []) @
        [Call h (DCAM_setup_acquisition ''snap'' 1), Call h (DCAM_start_acquisition ''snap'' 1),
         Call h DCAM_wait_for_frame, Call h DCAM_get_status])"
  using assms
  by (auto simp: start_single_acquisition_def get_trigger_mode_def set_trigger_mode_def
      andthen_def cam_call_def ok_def split: sum.splits if_splits)

text \<open>
  Claim C3. \<open>start_single_acquisition\<close> asks the library for the trigger mode. When
  the answer is not \<open>int\<close>, it then sets the trigger mode to \<open>int\<close>, sets up and
  starts a snap of one frame, waits for the frame and only then asks for the status;
  when the answer is \<open>int\<close> the same calls are made without the one that sets the
  trigger mode. Provided the library answers each of these calls with a value, in the
  history in which the call is made, the method makes exactly these calls in this
  order and returns.
\<close>

theorem start_single_acquisition_call_order:
  fixes h :: nat and tm :: pyval and w :: world
  defines "pre \<equiv>
    trace w @ Call h DCAM_get_trigger_mode #
    (if tm \<noteq> PyStr ''int'' then [Call h (DCAM_set_trigger_mode (PyStr ''int''))] else [])"
  assumes "cam w = Some h"
    and "reply lib (trace w) h DCAM_get_trigger_mode = Inr tm"
    and "tm \<noteq> PyStr ''int'' \<Longrightarrow>
      reply lib (trace w @ [Call h DCAM_get_trigger_mode]) h
        (DCAM_set_trigger_mode (PyStr ''int'')) = Inr x1"
    and "reply lib pre h (DCAM_setup_acquisition ''snap'' 1) = Inr x2"
    and "reply lib (pre @ [Call h (DCAM_setup_acquisition ''snap'' 1)]) h
      (DCAM_start_acquisition ''snap'' 1) = Inr x3"
    and "reply lib (pre @ [Call h (DCAM_setup_acquisition ''snap'' 1),
        Call h (DCAM_start_acquisition ''snap'' 1)]) h DCAM_wait_for_frame = Inr x4"
    and "reply lib (pre @ [Call h (DCAM_setup_acquisition ''snap'' 1),
        Call h (DCAM_start_acquisition ''snap'' 1), Call h DCAM_wait_for_frame]) h
      DCAM_get_status = Inr st"
  shows "start_single_acquisition lib w =
    (Inr (PyBool (st \<noteq> PyStr ''error'')),
     w\<lparr>trace := pre @ [Call h (DCAM_setup_acquisition ''snap'' 1),
       Call h (DCAM_start_acquisition ''snap'' 1), Call h DCAM_wait_for_frame,
       Call h DCAM_get_status]\<rparr>)"
proof (cases "tm = PyStr ''int''")
  case True
  with assms show ?thesis
    by (simp add: start_single_acquisition_def get_trigger_mode_def andthen_def
        cam_call_def ok_def)
next
  case False
  with assms show ?thesis
    by (simp add: start_single_acquisition_def get_trigger_mode_def set_trigger_mode_def
        andthen_def cam_call_def ok_def)
qed

theorem start_single_acquisition_call_order_witness:
  "cam (activated sim_sdk) = Some 1 \<and>
   reply sim_sdk (trace (activated sim_sdk)) 1 DCAM_get_trigger_mode = Inr (PyStr ''ext'') \<and>
   start_single_acquisition sim_sdk (activated sim_sdk) =
     (Inr (PyBool True),
      (activated sim_sdk)\<lparr>trace := trace (activated sim_sdk) @
        [Call 1 DCAM_get_trigger_mode, Call 1 (DCAM_set_trigger_mode (PyStr ''int'')),
         Call 1 (DCAM_setup_acquisition ''snap'' 1), Call 1 (DCAM_start_acquisition ''snap'' 1),
         Call 1 DCAM_wait_for_frame, Call 1 DCAM_get_status]\<rparr>) \<and>
   cam (activated broken_sdk) = Some 1 \<and>
   reply broken_sdk (trace (activated broken_sdk)) 1 DCAM_get_trigger_mode = Inr (PyStr ''int'') \<and>
   start_single_acquisition broken_sdk (activated broken_sdk) =
     (Inr (PyBool False),
      (activated broken_sdk)\<lparr>trace := trace (activated broken_sdk) @
        [Call 1 DCAM_get_trigger_mode,
         Call 1 (DCAM_setup_acquisition ''snap'' 1), Call 1 (DCAM_start_acquisition ''snap'' 1),
         Call 1 DCAM_wait_for_frame, Call 1 DCAM_get_status]\<rparr>)"
  using
    start_single_acquisition_call_order [where lib = sim_sdk and w = "activated sim_sdk"
      and h = 1 and tm = "PyStr ''ext''" and ?x1.0 = PyNone and ?x2.0 = PyNone
      and ?x3.0 = PyNone and ?x4.0 = PyNone and st = "PyStr ''ready''"]
    start_single_acquisition_call_order [where lib = broken_sdk and w = "activated broken_sdk"
      and h = 1 and tm = "PyStr ''int''" and ?x1.0 = PyNone and ?x2.0 = PyNone
      and ?x3.0 = PyNone and ?x4.0 = PyNone and st = "PyStr ''error''"]
  by (simp add: demo_defs)

text \<open>
  Claim C4. \<open>start_single_acquisition\<close> and \<open>start_live_acquisition\<close> return the
  boolean that says whether the status the library reports after the start call (for
  the single frame: after the wait that follows it) differs from \<open>error\<close>: false
  for \<open>error\<close>, true for every other status. The live acquisition is set up and
  started as a \<open>sequence\<close> of 100 frames. Both hold provided the library answers
  each call the method makes with a value, in the history in which it is made.
\<close>

theorem start_acquisition_result:
  fixes h :: nat and tm :: pyval and w :: world
  defines "pre \<equiv>
    trace w @ Call h DCAM_get_trigger_mode #
    (if tm \<noteq> PyStr ''int'' then [Call h (DCAM_set_trigger_mode (PyStr ''int''))] else [])"
  assumes "cam w = Some h"
    and "reply lib (trace w) h DCAM_get_trigger_mode = Inr tm"
    and "tm \<noteq> PyStr ''int'' \<Longrightarrow>
      reply lib (trace w @ [Call h DCAM_get_trigger_mode]) h
        (DCAM_set_trigger_mode (PyStr ''int'')) = Inr x1"
  shows
    "(reply lib pre h (DCAM_setup_acquisition ''snap'' 1) = Inr x2 \<and>
      reply lib (pre @ [Call h (DCAM_setup_acquisition ''snap'' 1)]) h
        (DCAM_start_acquisition ''snap'' 1) = Inr x3 \<and>
      reply lib (pre @ [Call h (DCAM_setup_acquisition ''snap'' 1),
        Call h (DCAM_start_acquisition ''snap'' 1)]) h DCAM_wait_for_frame = Inr x4 \<and>
      reply lib (pre @ [Call h (DCAM_setup_acquisition ''snap'' 1),
        Call h (DCAM_start_acquisition ''snap'' 1), Call h DCAM_wait_for_frame]) h
        DCAM_get_status = Inr st \<longrightarrow>
      start_single_acquisition lib w =
        (Inr (PyBool (st \<noteq> PyStr ''error'')),
         w\<lparr>trace := pre @ [Call h (DCAM_setup_acquisition ''snap'' 1),
           Call h (DCAM_start_acquisition ''snap'' 1), Call h DCAM_wait_for_frame,
           Call h DCAM_get_status]\<rparr>)) \<and>
     (reply lib pre h (DCAM_setup_acquisition ''sequence'' 100) = Inr y2 \<and>
      reply lib (pre @ [Call h (DCAM_setup_acquisition ''sequence'' 100)]) h
        (DCAM_start_acquisition ''sequence'' 100) = Inr y3 \<and>
      reply lib (pre @ [Call h (DCAM_setup_acquisition ''sequence'' 100),
        Call h (DCAM_start_acquisition ''sequence'' 100)]) h DCAM_get_status = Inr st' \<longrightarrow>
      start_live_acquisition lib w =
        (Inr (PyBool (st' \<noteq> PyStr ''error'')),
         w\<lparr>trace := pre @ [Call h (DCAM_setup_acquisition ''sequence'' 100),
           Call h (DCAM_start_acquisition ''sequence'' 100), Call h DCAM_get_status]\<rparr>))"
proof (cases "tm = PyStr ''int''")
  case True
  with assms show ?thesis
    by (simp add: start_single_acquisition_def start_live_acquisition_def
        get_trigger_mode_def andthen_def cam_call_def ok_def)
next
  case False
  with assms show ?thesis
    by (simp add: start_single_acquisition_def start_live_acquisition_def
        get_trigger_mode_def set_trigger_mode_def andthen_def cam_call_def ok_def)
qed

theorem start_acquisition_result_witness:
  "cam (activated broken_sdk) = Some 1 \<and>
   reply broken_sdk (trace (activated broken_sdk)) 1 DCAM_get_trigger_mode = Inr (PyStr ''int'') \<and>
   fst (start_single_acquisition broken_sdk (activated broken_sdk)) = Inr (PyBool False) \<and>
   fst (start_live_acquisition broken_sdk (activated broken_sdk)) = Inr (PyBool False) \<and>
   trace (live_started broken_sdk) =
     trace (activated broken_sdk) @
     [Call 1 DCAM_get_trigger_mode, Call 1 (DCAM_setup_acquisition ''sequence'' 100),
      Call 1 (DCAM_start_acquisition ''sequence'' 100), Call 1 DCAM_get_status] \<and>
   cam (activated sim_sdk) = Some 1 \<and>
   reply sim_sdk (trace (activated sim_sdk)) 1 DCAM_get_trigger_mode = Inr (PyStr ''ext'') \<and>
   fst (start_single_acquisition sim_sdk (activated sim_sdk)) = Inr (PyBool True) \<and>
   fst (start_live_acquisition sim_sdk (activated sim_sdk)) = Inr (PyBool True) \<and>
   trace (live_started sim_sdk) =
     trace (activated sim_sdk) @
     [Call 1 DCAM_get_trigger_mode, Call 1 (DCAM_set_trigger_mode (PyStr ''int'')),
      Call 1 (DCAM_setup_acquisition ''sequence'' 100),
      Call 1 (DCAM_start_acquisition ''sequence'' 100), Call 1 DCAM_get_status]"
  using
    start_acquisition_result [where lib = broken_sdk and w = "activated broken_sdk"
      and h = 1 and tm = "PyStr ''int''" and ?x1.0 = PyNone and ?x2.0 = PyNone
      and ?x3.0 = PyNone and ?x4.0 = PyNone and st = "PyStr ''error''"
      and ?y2.0 = PyNone and ?y3.0 = PyNone and st' = "PyStr ''error''"]
    start_acquisition_result [where lib = sim_sdk and w = "activated sim_sdk"
      and h = 1 and tm = "PyStr ''ext''" and ?x1.0 = PyNone and ?x2.0 = PyNone
      and ?x3.0 = PyNone and ?x4.0 = PyNone and st = "PyStr ''ready''"
      and ?y2.0 = PyNone and ?y3.0 = PyNone and st' = "PyStr ''busy''"]
  by (simp add: demo_defs live_started_def)

subsection \<open>Stopping an acquisition\<close>

text \<open>
  Claim C5. \<open>stop_acquisition\<close> asks the library to stop and then asks whether an
  acquisition is in progress. When both calls are answered it has made these two
  calls and no other, and the truth test of the second answer decides the result:
  true if the answer is falsy (no acquisition in progress), false if it is truthy (an
  acquisition still in progress), and the exception when the truth test of the answer
  raises one.
\<close>

theorem stop_acquisition_result:
  assumes "cam w = Some h"
    and "reply lib (trace w) h DCAM_stop_acquisition = Inr x"
    and "reply lib (trace w @ [Call h DCAM_stop_acquisition]) h DCAM_acquisition_in_progress =
      Inr a"
  shows "stop_acquisition lib w =
    (case truthy lib a of
       Inl e \<Rightarrow> Inl e
     | Inr is_acquiring \<Rightarrow> Inr (PyBool (\<not> is_acquiring)),
     w\<lparr>trace := trace w @ [Call h DCAM_stop_acquisition, Call h DCAM_acquisition_in_progress]\<rparr>)"
  using assms
  by (simp add: stop_acquisition_def andthen_def cam_call_def split: sum.splits)

theorem stop_acquisition_result_witness:
  "cam (live_started broken_sdk) = Some 1 \<and>
   reply broken_sdk (trace (live_started broken_sdk)) 1 DCAM_stop_acquisition = Inr PyNone \<and>
   reply broken_sdk (trace (live_started broken_sdk) @ [Call 1 DCAM_stop_acquisition]) 1
     DCAM_acquisition_in_progress = Inr (PyBool True) \<and>
   fst (stop_acquisition broken_sdk (live_started broken_sdk)) = Inr (PyBool False) \<and>
   cam (live_started sim_sdk) = Some 1 \<and>
   reply sim_sdk (trace (live_started sim_sdk) @ [Call 1 DCAM_stop_acquisition]) 1
     DCAM_acquisition_in_progress = Inr (PyBool False) \<and>
   fst (stop_acquisition sim_sdk (live_started sim_sdk)) = Inr (PyBool True) \<and>
   cam (activated frame_sdk) = Some 1 \<and>
   reply frame_sdk (trace (activated frame_sdk) @ [Call 1 DCAM_stop_acquisition]) 1
     DCAM_acquisition_in_progress = Inr (PyObj 0) \<and>
   fst (stop_acquisition frame_sdk (activated frame_sdk)) = Inl ValueError"
  using
    stop_acquisition_result [where lib = broken_sdk and w = "live_started broken_sdk"
      and h = 1 and x = PyNone and a = "PyBool True"]
    stop_acquisition_result [where lib = sim_sdk and w = "live_started sim_sdk"
      and h = 1 and x = PyNone and a = "PyBool False"]
    stop_acquisition_result [where lib = frame_sdk and w = "activated frame_sdk"
      and h = 1 and x = "PyObj 0" and a = "PyObj 0"]
  by (simp add: demo_defs method_defs live_started_def)

subsection \<open>The ready state\<close>

text \<open>
  Claim C6. \<open>get_ready_state\<close> asks the library for the status once and returns true
  if the status is the string \<open>ready\<close> and false for every other status.
\<close>

theorem get_ready_state_iff_ready:
  assumes "cam w = Some h" and "reply lib (trace w) h DCAM_get_status = Inr st"
  shows "get_ready_state lib w =
    (Inr (PyBool (st = PyStr ''ready'')), w\<lparr>trace := trace w @ [Call h DCAM_get_status]\<rparr>)"
  using assms by (simp add: get_ready_state_def andthen_def cam_call_def ok_def)

theorem get_ready_state_iff_ready_witness:
  "cam (activated sim_sdk) = Some 1 \<and>
   reply sim_sdk (trace (activated sim_sdk)) 1 DCAM_get_status = Inr (PyStr ''ready'') \<and>
   fst (get_ready_state sim_sdk (activated sim_sdk)) = Inr (PyBool True) \<and>
   cam (live_started sim_sdk) = Some 1 \<and>
   reply sim_sdk (trace (live_started sim_sdk)) 1 DCAM_get_status = Inr (PyStr ''busy'') \<and>
   fst (get_ready_state sim_sdk (live_started sim_sdk)) = Inr (PyBool False) \<and>
   cam (single_started broken_sdk) = Some 1 \<and>
   reply broken_sdk (trace (single_started broken_sdk)) 1 DCAM_get_status =
     Inr (PyStr ''error'') \<and>
   fst (get_ready_state broken_sdk (single_started broken_sdk)) = Inr (PyBool False)"
proof -
  have c: "cam (activated sim_sdk) = Some 1" "cam (live_started sim_sdk) = Some 1"
    "cam (single_started broken_sdk) = Some 1"
    by (simp_all add: demo_defs method_defs live_started_def single_started_def)
  have s: "reply sim_sdk (trace (activated sim_sdk)) 1 DCAM_get_status = Inr (PyStr ''ready'')"
    "reply sim_sdk (trace (live_started sim_sdk)) 1 DCAM_get_status = Inr (PyStr ''busy'')"
    "reply broken_sdk (trace (single_started broken_sdk)) 1 DCAM_get_status =
       Inr (PyStr ''error'')"
    by (simp_all add: demo_defs method_defs live_started_def single_started_def)
  from get_ready_state_iff_ready [OF c(1) s(1)] get_ready_state_iff_ready [OF c(2) s(2)]
    get_ready_state_iff_ready [OF c(3) s(3)] c s
  show ?thesis by simp
qed

subsection \<open>Activation and deactivation\<close>

text \<open>
  Claim C7. When the constructor returns a camera and the camera accepts the exposure,
  \<open>on_activate\<close> has, in this order, written the DLL path to \<open>pylablib.par\<close>,
  constructed the camera, and called \<open>set_exposure\<close> once with the default exposure;
  these are all its calls to the library. It has stored the default gain in the
  instance, where \<open>get_gain\<close> finds it, and it has changed nothing else but the
  handle.
\<close>

theorem on_activate_applies_defaults:
  assumes "new_camera lib (trace w @ [Par_set (dll_location cfg)]) = Inr h"
    and "reply lib (trace w @ [Par_set (dll_location cfg), New_camera]) h
      (DCAM_set_exposure (default_exposure cfg)) = Inr x"
  shows "on_activate cfg lib w =
    (Inr PyNone,
     w\<lparr>gain := default_gain cfg, cam := Some h,
       par := (par w)(dll_key \<mapsto> dll_location cfg),
       trace := trace w @ [Par_set (dll_location cfg), New_camera,
         Call h (DCAM_set_exposure (default_exposure cfg))]\<rparr>) \<and>
    fst (get_gain (snd (on_activate cfg lib w))) = Inr (default_gain cfg)"
  using assms
  by (simp add: on_activate_def andthen_def par_set_def open_camera_def cam_call_def
      set_gain_def get_gain_def)

theorem on_activate_applies_defaults_witness:
  "new_camera sim_sdk (trace new_process @ [Par_set (dll_location demo_cfg)]) = Inr 1 \<and>
   reply sim_sdk (trace new_process @ [Par_set (dll_location demo_cfg), New_camera]) 1
     (DCAM_set_exposure (default_exposure demo_cfg)) = Inr PyNone \<and>
   fst (on_activate demo_cfg sim_sdk new_process) = Inr PyNone \<and>
   trace (snd (on_activate demo_cfg sim_sdk new_process)) =
     [Par_set (PyStr ''C:/Adyant/dlls''), New_camera, Call 1 (DCAM_set_exposure (PyFloat 1 0))] \<and>
   fst (get_gain (snd (on_activate demo_cfg sim_sdk new_process))) = Inr (PyFloat 1 0)"
proof -
  have n: "new_camera sim_sdk (trace new_process @ [Par_set (dll_location demo_cfg)]) = Inr 1"
    by (simp add: demo_defs)
  have x: "reply sim_sdk (trace new_process @ [Par_set (dll_location demo_cfg), New_camera]) 1
      (DCAM_set_exposure (default_exposure demo_cfg)) = Inr PyNone"
    by (simp add: demo_defs)
  have g: "fst (on_activate demo_cfg sim_sdk new_process) = Inr PyNone"
    "trace (snd (on_activate demo_cfg sim_sdk new_process)) =
       [Par_set (PyStr ''C:/Adyant/dlls''), New_camera, Call 1 (DCAM_set_exposure (PyFloat 1 0))]"
    "fst (get_gain (snd (on_activate demo_cfg sim_sdk new_process))) = Inr (PyFloat 1 0)"
    by (simp_all add: demo_defs)
  from on_activate_applies_defaults [OF n x] n x g show ?thesis
    by blast
qed

text \<open>
  Claim C8. On an instance that has a camera, in whatever state (after an acquisition
  that failed, too), \<open>on_deactivate\<close> calls \<open>close\<close> on the camera exactly once and
  calls nothing else of the camera. When \<open>close\<close> returns, the entry of the DLL
  path is deleted from \<open>pylablib.par\<close>, and the method returns if there was such an
  entry; when \<open>close\<close> raises, the exception ends the method after that one call.
\<close>

theorem on_deactivate_closes_once:
  assumes "cam w = Some h" and "on_deactivate lib w = (r, w')"
  shows "(trace w' = trace w @ [Call h DCAM_close] \<or>
      trace w' = trace w @ [Call h DCAM_close, Par_del]) \<and>
    (\<forall>v. reply lib (trace w) h DCAM_close = Inr v \<longrightarrow>
       trace w' = trace w @ [Call h DCAM_close, Par_del] \<and> par w' dll_key = None \<and>
       (par w dll_key \<noteq> None \<longrightarrow> r = Inr PyNone))"
  using assms
  by (auto simp: on_deactivate_def andthen_def cam_call_def par_del_def
      split: sum.splits option.splits)

theorem on_deactivate_closes_once_witness:
  "fst (start_single_acquisition broken_sdk (activated broken_sdk)) = Inr (PyBool False) \<and>
   cam (single_started broken_sdk) = Some 1 \<and>
   par (single_started broken_sdk) dll_key = Some (PyStr ''C:/Adyant/dlls'') \<and>
   reply broken_sdk (trace (single_started broken_sdk)) 1 DCAM_close = Inr PyNone \<and>
   fst (on_deactivate broken_sdk (single_started broken_sdk)) = Inr PyNone \<and>
   trace (snd (on_deactivate broken_sdk (single_started broken_sdk))) =
     trace (single_started broken_sdk) @ [Call 1 DCAM_close, Par_del] \<and>
   par (snd (on_deactivate broken_sdk (single_started broken_sdk))) dll_key = None"
proof -
  have e: "fst (start_single_acquisition broken_sdk (activated broken_sdk)) = Inr (PyBool False)"
    by (simp add: demo_defs method_defs)
  have c: "cam (single_started broken_sdk) = Some 1"
    by (simp add: demo_defs method_defs single_started_def)
  have p: "par (single_started broken_sdk) dll_key = Some (PyStr ''C:/Adyant/dlls'')"
    by (simp add: demo_defs method_defs single_started_def)
  have v: "reply broken_sdk (trace (single_started broken_sdk)) 1 DCAM_close = Inr PyNone"
    by (simp add: demo_defs method_defs single_started_def)
  have d: "on_deactivate broken_sdk (single_started broken_sdk) =
      (fst (on_deactivate broken_sdk (single_started broken_sdk)),
       snd (on_deactivate broken_sdk (single_started broken_sdk)))"
    by simp
  from on_deactivate_closes_once [OF c d] e c p v show ?thesis
    by simp
qed

subsection \<open>The setters of the cached values\<close>

text \<open>
  Claim C9. \<open>set_gain\<close> and \<open>set_binning_value\<close> return after changing one attribute
  of the instance each, \<open>_gain\<close> and \<open>_bin_value\<close>. They make no call to the
  library: the history of calls, the handle and \<open>pylablib.par\<close> are as before, and
  every method of the camera answers after the setter what it would have answered
  before it.
\<close>

theorem setters_change_cache_only:
  "run_op cfg lib (Op_set_gain g) w = (Inr PyNone, w\<lparr>gain := g\<rparr>) \<and>
   run_op cfg lib (Op_set_binning_value b) w = (Inr PyNone, w\<lparr>bin_value := Some b\<rparr>) \<and>
   trace (snd (run_op cfg lib (Op_set_gain g) w)) = trace w \<and>
   trace (snd (run_op cfg lib (Op_set_binning_value b) w)) = trace w \<and>
   cam (snd (run_op cfg lib (Op_set_gain g) w)) = cam w \<and>
   cam (snd (run_op cfg lib (Op_set_binning_value b) w)) = cam w \<and>
   par (snd (run_op cfg lib (Op_set_gain g) w)) = par w \<and>
   par (snd (run_op cfg lib (Op_set_binning_value b) w)) = par w \<and>
   fst (cam_call lib c (snd (run_op cfg lib (Op_set_gain g) w))) = fst (cam_call lib c w) \<and>
   fst (cam_call lib c (snd (run_op cfg lib (Op_set_binning_value b) w))) =
     fst (cam_call lib c w)"
  by (simp add: set_gain_def set_binning_value_def cam_call_def split: option.splits)

text \<open>
  Claim C10. On a fresh instance, and after any sequence of operations without
  \<open>set_binning_value\<close> (the activation among them), \<open>get_binning_value\<close> raises
  \<open>AttributeError\<close>: nothing else creates the attribute (the class does not
  initialise it, and its base classes are taken not to either). \<open>get_gain\<close> on a
  fresh instance returns \<open>None\<close>, the value of \<open>_gain\<close> in the class.
\<close>

theorem get_binning_value_unset_raises:
  assumes "list_all (\<lambda>x. \<not> calls_set_binning_value x) xs"
  shows "fst (run_op cfg lib Op_get_binning_value (run_ops cfg lib xs (fresh_instance p t))) =
      Inl AttributeError \<and>
    run_op cfg lib Op_get_gain (fresh_instance p t) = (Inr PyNone, fresh_instance p t)"
proof -
  from assms have "bin_value (run_ops cfg lib xs (fresh_instance p t)) =
      bin_value (fresh_instance p t)"
    by (rule run_ops_bin_value)
  then show ?thesis
    by (simp add: get_binning_value_def get_gain_def fresh_instance_def)
qed

theorem get_binning_value_unset_raises_witness:
  "list_all (\<lambda>x. \<not> calls_set_binning_value x)
     [Op_on_activate, Op_set_gain (PyInt 3), Op_start_live_acquisition] \<and>
   fst (run_op demo_cfg sim_sdk Op_get_binning_value
     (run_ops demo_cfg sim_sdk [Op_on_activate, Op_set_gain (PyInt 3), Op_start_live_acquisition]
       new_process)) = Inl AttributeError \<and>
   fst (run_op demo_cfg sim_sdk Op_get_gain new_process) = Inr PyNone \<and>
   fst (run_op demo_cfg sim_sdk Op_get_binning_value
     (run_ops demo_cfg sim_sdk [Op_set_binning_value (PyInt 2)] new_process)) = Inr (PyInt 2)"
proof -
  have s: "fst (run_op demo_cfg sim_sdk Op_get_binning_value
     (run_ops demo_cfg sim_sdk [Op_set_binning_value (PyInt 2)] new_process)) = Inr (PyInt 2)"
    by (simp add: demo_defs)
  from get_binning_value_unset_raises [of
      "[Op_on_activate, Op_set_gain (PyInt 3), Op_start_live_acquisition]"
      demo_cfg sim_sdk "\<lambda>k. None" "[]"] s
  show ?thesis by (simp add: new_process_def)
qed

end
